theory Spec2Isabelle
  imports Complex_Main
begin

section \<open>Data model\<close>

text \<open>
  The service is one Python module, \<^verbatim>\<open>app.py\<close>. Its dictionaries with a fixed set of
  keys are records here; the temperature is a JSON number and is modelled as a real.
  The field \<^verbatim>\<open>top\<close> of the outfit is called \<open>top_item\<close>, and the fields of a weather
  entry are called \<open>entry_main\<close> and \<open>entry_description\<close>.
\<close>

record outfit =
  top_item :: string
  bottom :: string
  outerwear :: string
  footwear :: string
  accessories :: "string list"

record recommendation =
  outfit :: outfit
  color_palette :: "string list"
  style_tips :: string

record main_section =
  temp :: real
  humidity :: real

record weather_entry =
  entry_main :: string
  entry_description :: string

record wind_section =
  speed :: real

record weather_data =
  main :: main_section
  weather :: "weather_entry list"
  wind :: wind_section

text \<open>
  Python exceptions that the module can meet, each with the text of \<^verbatim>\<open>str(e)\<close>.
  \<open>RequestException\<close> is \<^verbatim>\<open>requests.RequestException\<close>; \<open>BadRequest\<close> and
  \<open>UnsupportedMediaType\<close> are Werkzeug's HTTP exceptions, which are not request
  exceptions.
\<close>

datatype exn =
    RequestException string
  | IndexError string
  | TypeError string
  | BadRequest string
  | UnsupportedMediaType string
  | OtherException string

fun str_exn :: "exn \<Rightarrow> string" where
  "str_exn (RequestException m) = m"
| "str_exn (IndexError m) = m"
| "str_exn (TypeError m) = m"
| "str_exn (BadRequest m) = m"
| "str_exn (UnsupportedMediaType m) = m"
| "str_exn (OtherException m) = m"

section \<open>String helpers of the Python runtime\<close>

text \<open>
  \<^verbatim>\<open>s.replace(old, new)\<close>: every non-overlapping occurrence of \<open>old\<close>, scanning from the
  left; with an empty \<open>old\<close> Python puts \<open>new\<close> before every character and at the end.
\<close>

function replace :: "string \<Rightarrow> string \<Rightarrow> string \<Rightarrow> string" where
  "replace s old new =
     (if old = [] then new @ concat (map (\<lambda>c. c # new) s)
      else if s = [] then []
      else if take (length old) s = old then new @ replace (drop (length old) s) old new
      else hd s # replace (tl s) old new)"
  by pat_completeness auto
termination
  by (relation "measure (\<lambda>(s, old, new). length s)") auto

declare replace.simps [simp del]

text \<open>A name between apostrophes, as Python's messages write a type or a value.\<close>

definition quoted :: "string \<Rightarrow> string" where
  "quoted s = CHR 0x27 # s @ [CHR 0x27]"

text \<open>\<^verbatim>\<open>sep.join(xs)\<close>.\<close>

fun join :: "string \<Rightarrow> string list \<Rightarrow> string" where
  "join sep [] = []"
| "join sep [x] = x"
| "join sep (x # y # ys) = x @ sep @ join sep (y # ys)"

text \<open>\<^verbatim>\<open>d.get(k, default)\<close> on a dictionary with string keys.\<close>

definition dict_get :: "(string \<rightharpoonup> 'v) \<Rightarrow> string \<Rightarrow> 'v \<Rightarrow> 'v" where
  "dict_get d k dflt = (case d k of None \<Rightarrow> dflt | Some v \<Rightarrow> v)"

section \<open>The outfit recommender\<close>

text \<open>Lines 45-75 of \<^verbatim>\<open>get_outfit_recommendation\<close>: the base outfit by temperature.\<close>

definition temperature_rules :: "real \<Rightarrow> outfit" where
  "temperature_rules t =
     (if t < 50 then
        \<lparr>top_item = ''Thermal long-sleeve shirt or sweater'',
         bottom = ''Jeans or warm pants'',
         outerwear = ''Heavy coat or parka'',
         footwear = ''Boots'',
         accessories = [''Scarf'', ''Gloves'', ''Beanie'']\<rparr>
      else if t < 65 then
        \<lparr>top_item = ''Long-sleeve shirt or light sweater'',
         bottom = ''Chinos or jeans'',
         outerwear = ''Light jacket or cardigan'',
         footwear = ''Sneakers or loafers'',
         accessories = [''Light scarf'']\<rparr>
      else if t < 75 then
        \<lparr>top_item = ''T-shirt or button-down shirt'',
         bottom = ''Chinos or casual pants'',
         outerwear = ''Optional light jacket'',
         footwear = ''Sneakers or casual shoes'',
         accessories = [''Sunglasses'']\<rparr>
      else if t < 85 then
        \<lparr>top_item = ''Breathable t-shirt or polo'',
         bottom = ''Shorts or light pants'',
         outerwear = ''None needed'',
         footwear = ''Sandals or canvas shoes'',
         accessories = [''Sunglasses'', ''Hat'']\<rparr>
      else
        \<lparr>top_item = ''Light, breathable tank or t-shirt'',
         bottom = ''Shorts'',
         outerwear = ''None'',
         footwear = ''Sandals'',
         accessories = [''Sunglasses'', ''Sun hat'', ''Sunscreen'']\<rparr>)"

text \<open>Lines 77-85: the adjustment for the weather condition.\<close>

definition condition_rules :: "string \<Rightarrow> outfit \<Rightarrow> outfit" where
  "condition_rules condition ou =
     (if condition \<in> set [''Rain'', ''Drizzle'', ''Thunderstorm''] then
        ou\<lparr>outerwear := ''Waterproof jacket or raincoat'',
           accessories := accessories ou @ [''Umbrella''],
           footwear := ''Waterproof boots or shoes''\<rparr>
      else if condition = ''Snow'' then
        ou\<lparr>outerwear := ''Insulated winter coat'',
           accessories := accessories ou @ [''Warm hat'', ''Gloves'', ''Scarf''],
           footwear := ''Winter boots''\<rparr>
      else ou)"

text \<open>Lines 87-97: the adjustment for the mood.\<close>

definition mood_rules :: "string \<Rightarrow> outfit \<Rightarrow> outfit" where
  "mood_rules mood ou =
     (if mood = ''professional'' then
        ou\<lparr>top_item := replace (replace (top_item ou) ''t-shirt'' ''dress shirt'')
                          ''T-shirt'' ''Button-down shirt'',
           bottom := ''Dress pants or skirt'',
           footwear := ''Dress shoes or heels''\<rparr>
      else if mood = ''adventurous'' then
        ou\<lparr>footwear := ''Hiking boots or athletic shoes'',
           accessories := accessories ou @ [''Backpack'']\<rparr>
      else if mood = ''cozy'' then
        ou\<lparr>top_item := ''Soft sweater or hoodie'',
           accessories := accessories ou @ [''Comfort scarf'']\<rparr>
      else ou)"

text \<open>Lines 99-105: the table of palettes.\<close>

definition color_palettes :: "string \<rightharpoonup> string list" where
  "color_palettes = map_of
     [(''neutral'', [''Navy'', ''Beige'', ''White'', ''Gray'']),
      (''warm'', [''Burgundy'', ''Mustard'', ''Rust'', ''Cream'']),
      (''cool'', [''Navy'', ''Teal'', ''Silver'', ''Ice Blue'']),
      (''vibrant'', [''Red'', ''Emerald'', ''Royal Blue'', ''Yellow''])]"

text \<open>
  \<^verbatim>\<open>color_palettes['neutral']\<close> is evaluated before the lookup, as the default argument of
  \<^verbatim>\<open>get\<close>; the key is in the table, so the subscript cannot raise.
\<close>

definition select_palette :: "string \<Rightarrow> string list" where
  "select_palette color_pref =
     dict_get color_palettes color_pref
       (case color_palettes ''neutral'' of Some p \<Rightarrow> p | None \<Rightarrow> [])"

text \<open>\<^verbatim>\<open>generate_style_tips\<close>: the tips are appended in this order and joined.\<close>

definition generate_style_tips :: "real \<Rightarrow> string \<Rightarrow> string \<Rightarrow> string" where
  "generate_style_tips t condition mood =
     (let tips = [];
          tips = (if t < 65
                  then tips @ [''Layer your clothing for temperature flexibility'']
                  else tips);
          tips = (if condition \<in> set [''Rain'', ''Drizzle'']
                  then tips @ [''Choose water-resistant fabrics'']
                  else tips);
          tips = (if t > 75
                  then tips @ [''Opt for breathable, moisture-wicking materials'']
                  else tips);
          tips = (if mood = ''professional''
                  then tips @ [''Keep accessories minimal and polished'']
                  else tips)
      in if tips \<noteq> [] then join '' | '' tips
         else ''Dress comfortably and confidently!'')"

text \<open>
  \<^verbatim>\<open>get_outfit_recommendation(weather_data, preferences)\<close>. The subscript
  \<^verbatim>\<open>weather_data['weather'][0]\<close> raises \<^verbatim>\<open>IndexError\<close> on an empty list; nothing else
  in the function can raise on data of these types.
\<close>

definition get_outfit_recommendation ::
    "weather_data \<Rightarrow> (string \<rightharpoonup> string) \<Rightarrow> exn + recommendation" where
  "get_outfit_recommendation weather_data preferences =
     (let t = temp (main weather_data) in
      case weather weather_data of
        [] \<Rightarrow> Inl (IndexError ''list index out of range'')
      | w # _ \<Rightarrow>
          let condition = entry_main w;
              mood = dict_get preferences ''mood'' ''casual'';
              style = dict_get preferences ''style_preference'' ''casual'';
              color_pref = dict_get preferences ''color_preference'' ''neutral'';
              ou = temperature_rules t;
              ou = condition_rules condition ou;
              ou = mood_rules mood ou
          in Inr \<lparr>outfit = ou,
                  color_palette = select_palette color_pref,
                  style_tips = generate_style_tips t condition mood\<rparr>)"

section \<open>The image adapter\<close>

text \<open>
  The configuration and the two outside services. \<^verbatim>\<open>os.getenv\<close> gives \<^verbatim>\<open>None\<close> or a
  string. \<open>unsplash_get\<close> is what \<^verbatim>\<open>requests.get(UNSPLASH_BASE_URL, ...)\<close> and the
  reading of its JSON body do for a query (the other parameters are constants):
  they raise, or give a status code and the list under \<^verbatim>\<open>'results'\<close>.
  \<open>openweather_get\<close> is the same for the weather service and a location.
\<close>

record image_data =
  url :: string
  thumb :: string
  photographer :: string
  photographer_url :: string

datatype photo_reply = Photo_raises exn | Photo_response int "image_data list"

datatype weather_reply = Weather_raises exn | Weather_response int weather_data

record env =
  OPENWEATHER_API_KEY :: "string option"
  UNSPLASH_ACCESS_KEY :: "string option"
  openweather_get :: "string \<Rightarrow> weather_reply"
  unsplash_get :: "string \<Rightarrow> photo_reply"

text \<open>
  The calls a request makes, in the order it makes them: a request to the weather
  service, a call of the recommender, a call of \<^verbatim>\<open>search_unsplash_image\<close> for a key
  of \<^verbatim>\<open>search_queries\<close> with its query, a request to the photo service.
\<close>

datatype event =
    Weather_request string
  | Recommender_invoked
  | Image_adapter_invoked string string
  | Photo_request string

text \<open>Python's truth value of \<^verbatim>\<open>None\<close> or a string.\<close>

fun truthy :: "string option \<Rightarrow> bool" where
  "truthy None = False"
| "truthy (Some s) = (s \<noteq> [])"

text \<open>
  \<^verbatim>\<open>search_unsplash_image(query)\<close>: the result and the requests sent. Every exception
  inside the \<^verbatim>\<open>try\<close> is caught and gives \<^verbatim>\<open>None\<close>.
\<close>

definition search_unsplash_image :: "env \<Rightarrow> string \<Rightarrow> image_data option \<times> event list" where
  "search_unsplash_image e query =
     (if \<not> truthy (UNSPLASH_ACCESS_KEY e) then (None, [])
      else
        (case unsplash_get e query of
           Photo_raises x \<Rightarrow> None
         | Photo_response status_code results \<Rightarrow>
             if status_code = 200 then
               (case results of [] \<Rightarrow> None | r # _ \<Rightarrow> Some r)
             else None,
         [Photo_request query]))"

text \<open>\<^verbatim>\<open>d[k] = v\<close> on a dictionary kept in insertion order.\<close>

fun dict_set :: "string \<Rightarrow> 'v \<Rightarrow> (string \<times> 'v) list \<Rightarrow> (string \<times> 'v) list" where
  "dict_set k v [] = [(k, v)]"
| "dict_set k v ((k', v') # kvs) =
     (if k = k' then (k, v) # kvs else (k', v') # dict_set k v kvs)"

text \<open>Lines 181-187 of \<^verbatim>\<open>get_outfit_images\<close>.\<close>

definition search_queries :: "outfit \<Rightarrow> (string \<times> string option) list" where
  "search_queries ou =
     [(''top'', Some (top_item ou @ '' fashion flatlay'')),
      (''bottom'', Some (bottom ou @ '' fashion flatlay'')),
      (''outerwear'',
         if outerwear ou \<noteq> [] \<and> outerwear ou \<noteq> ''None needed''
         then Some (outerwear ou @ '' fashion flatlay'') else None),
      (''footwear'', Some (footwear ou @ '' fashion flatlay'')),
      (''outfit_complete'', Some ''complete outfit flatlay fashion minimal aesthetic'')]"

text \<open>Lines 189-193: the loop over the items, with the images and the calls so far.\<close>

fun images_loop ::
    "env \<Rightarrow> (string \<times> string option) list \<Rightarrow> (string \<times> image_data) list \<Rightarrow> event list
      \<Rightarrow> (string \<times> image_data) list \<times> event list" where
  "images_loop e [] images evs = (images, evs)"
| "images_loop e ((key, query) # rest) images evs =
     (if truthy query then
        (case search_unsplash_image e (the query) of
           (found, sent) \<Rightarrow>
             images_loop e rest
               (case found of None \<Rightarrow> images | Some d \<Rightarrow> dict_set key d images)
               (evs @ [Image_adapter_invoked key (the query)] @ sent))
      else images_loop e rest images evs)"

definition get_outfit_images ::
    "env \<Rightarrow> outfit \<Rightarrow> (string \<times> image_data) list \<times> event list" where
  "get_outfit_images e ou = images_loop e (search_queries ou) [] []"

section \<open>The request handler\<close>

text \<open>
  Python's \<^verbatim>\<open>round\<close> with one argument: to the nearest integer, a tie to the even one.
\<close>

definition py_round :: "real \<Rightarrow> int" where
  "py_round x =
     (let f = \<lfloor>x\<rfloor>; d = x - of_int f
      in if d < 1 / 2 then f
         else if d > 1 / 2 then f + 1
         else if even f then f else f + 1)"

record weather_info =
  temperature :: int
  condition :: string
  description :: string
  info_humidity :: real
  wind_speed :: int

text \<open>The body of the 200 response; each field is the JSON key after \<open>response_\<close>.\<close>

record response =
  response_location :: string
  response_weather :: weather_info
  response_outfit :: outfit
  response_outfit_images :: "(string \<times> image_data) list"
  response_color_palette :: "string list"
  response_style_tips :: string

datatype body = Error_body string | Json_body response

text \<open>The two \<^verbatim>\<open>except\<close> clauses of the handler.\<close>

fun handle_exception :: "exn \<Rightarrow> body \<times> nat" where
  "handle_exception (RequestException m) =
     (Error_body ''Failed to connect to weather service'', 503)"
| "handle_exception x = (Error_body (''An error occurred: '' @ str_exn x), 500)"

text \<open>
  The body of a POST request as Flask sees it: whether the Content-Type is a JSON type
  (\<^verbatim>\<open>request.is_json\<close>), and the bytes of the body, which are empty, or not a JSON
  text, or a JSON text with the value that \<^verbatim>\<open>json.loads\<close> gives for it. The fields of
  an object are strings, as the interface types \<^verbatim>\<open>location\<close>, \<^verbatim>\<open>mood\<close>,
  \<^verbatim>\<open>style_preference\<close> and \<^verbatim>\<open>color_preference\<close>; a JSON number is a Python \<^verbatim>\<open>int\<close> or
  \<^verbatim>\<open>float\<close>.
\<close>

datatype json =
    JNull
  | JBool bool
  | JInt int
  | JFloat real
  | JStr string
  | JArr "json list"
  | JObj "(string \<times> string) list"

datatype payload = No_content | Not_json | Json_text json

record request =
  is_json :: bool
  payload :: payload

text \<open>
  \<^verbatim>\<open>request.get_json()\<close> with its default arguments. It belongs to Flask and Werkzeug,
  not to \<^verbatim>\<open>app.py\<close>, and is written here after their documentation (Flask 2.1 and
  later; the server runs with \<^verbatim>\<open>debug=False\<close>): a Content-Type that is not JSON raises
  415 Unsupported Media Type, a body that does not parse raises 400 Bad Request, and
  only a body that parses is returned. The handler calls it inside its \<^verbatim>\<open>try\<close>.
\<close>

definition get_json :: "request \<Rightarrow> exn + json" where
  "get_json req =
     (if \<not> is_json req then
        Inl (UnsupportedMediaType
          (''415 Unsupported Media Type: Did not attempt to load JSON data because '' @
           ''the request Content-Type was not '' @ quoted ''application/json'' @ ''.''))
      else
        (case payload req of
           Json_text v \<Rightarrow> Inr v
         | _ \<Rightarrow>
             Inl (BadRequest
               (''400 Bad Request: The browser (or proxy) sent a request that '' @
                ''this server could not understand.''))))"

text \<open>Python's truth value of a JSON value: \<^verbatim>\<open>not data\<close> is its negation.\<close>

fun json_truthy :: "json \<Rightarrow> bool" where
  "json_truthy JNull = False"
| "json_truthy (JBool b) = b"
| "json_truthy (JInt i) = (i \<noteq> 0)"
| "json_truthy (JFloat r) = (r \<noteq> 0)"
| "json_truthy (JStr s) = (s \<noteq> [])"
| "json_truthy (JArr xs) = (xs \<noteq> [])"
| "json_truthy (JObj kvs) = (kvs \<noteq> [])"

text \<open>\<^verbatim>\<open>sub in s\<close> on strings: \<open>sub\<close> occurs in \<open>s\<close> as a contiguous piece.\<close>

fun str_contains :: "string \<Rightarrow> string \<Rightarrow> bool" where
  "str_contains [] sub = (sub = [])"
| "str_contains (c # cs) sub = (take (length sub) (c # cs) = sub \<or> str_contains cs sub)"

text \<open>
  \<^verbatim>\<open>outfit_recommendation()\<close>, lines 213-280. An \<open>Error_body m\<close> is the JSON object
  \<^verbatim>\<open>{"error": m}\<close>; the number beside the body is the status code; the list is the
  calls made. Every exception raised inside the \<^verbatim>\<open>try\<close> goes to \<open>handle_exception\<close>.
  After \<^verbatim>\<open>not data\<close>, the test \<^verbatim>\<open>'location' not in data\<close> is a key lookup on an object,
  a search for an equal element on an array, a substring test on a string, and a
  \<^verbatim>\<open>TypeError\<close> on a number or \<^verbatim>\<open>True\<close>; the subscript \<^verbatim>\<open>data['location']\<close> that follows
  raises \<^verbatim>\<open>TypeError\<close> on an array and on a string (the texts are CPython 3.11's).
  The branch of \<^verbatim>\<open>None\<close> is never reached, since \<^verbatim>\<open>not data\<close> holds for it.
\<close>

definition outfit_recommendation ::
    "env \<Rightarrow> request \<Rightarrow> (body \<times> nat) \<times> event list" where
  "outfit_recommendation e req =
     (case get_json req of
        Inl x \<Rightarrow> (handle_exception x, [])
      | Inr data \<Rightarrow>
          if \<not> json_truthy data then
            ((Error_body ''Location is required'', 400), [])
          else
            (case data of
               JNull \<Rightarrow>
                 (handle_exception
                    (TypeError (''argument of type '' @ quoted ''NoneType'' @
                                '' is not iterable'')), [])
             | JBool b \<Rightarrow>
                 (handle_exception
                    (TypeError (''argument of type '' @ quoted ''bool'' @
                                '' is not iterable'')), [])
             | JInt i \<Rightarrow>
                 (handle_exception
                    (TypeError (''argument of type '' @ quoted ''int'' @
                                '' is not iterable'')), [])
             | JFloat r \<Rightarrow>
                 (handle_exception
                    (TypeError (''argument of type '' @ quoted ''float'' @
                                '' is not iterable'')), [])
             | JStr s \<Rightarrow>
                 if \<not> str_contains s ''location'' then
                   ((Error_body ''Location is required'', 400), [])
                 else
                   (handle_exception
                      (TypeError (''string indices must be integers, not '' @
                                  quoted ''str'')), [])
             | JArr xs \<Rightarrow>
                 if JStr ''location'' \<notin> set xs then
                   ((Error_body ''Location is required'', 400), [])
                 else
                   (handle_exception
                      (TypeError ''list indices must be integers or slices, not str''), [])
             | JObj kvs \<Rightarrow>
                 (case map_of kvs ''location'' of
                    None \<Rightarrow> ((Error_body ''Location is required'', 400), [])
                  | Some location \<Rightarrow>
                      let preferences =
                            [''mood'' \<mapsto> dict_get (map_of kvs) ''mood'' ''casual'',
                             ''style_preference'' \<mapsto>
                                dict_get (map_of kvs) ''style_preference'' ''casual'',
                             ''color_preference'' \<mapsto>
                                dict_get (map_of kvs) ''color_preference'' ''neutral''];
                          evs = [Weather_request location]
                      in
                      (case openweather_get e location of
                         Weather_raises x \<Rightarrow> (handle_exception x, evs)
                       | Weather_response status_code wd \<Rightarrow>
                           if status_code \<noteq> 200 then
                             ((Error_body
                                 ''Unable to fetch weather data. Please check the location.'',
                               400), evs)
                           else
                             (case weather wd of
                                [] \<Rightarrow>
                                  (handle_exception
                                     (IndexError ''list index out of range''), evs)
                              | w # _ \<Rightarrow>
                                  let info =
                                        \<lparr>temperature = py_round (temp (main wd)),
                                         condition = entry_main w,
                                         description = entry_description w,
                                         info_humidity = humidity (main wd),
                                         wind_speed = py_round (speed (wind wd))\<rparr>;
                                      evs = evs @ [Recommender_invoked]
                                  in
                                  (case get_outfit_recommendation wd preferences of
                                     Inl x \<Rightarrow> (handle_exception x, evs)
                                   | Inr rcm \<Rightarrow>
                                       (case get_outfit_images e (outfit rcm) of
                                          (outfit_images, sent) \<Rightarrow>
                                            ((Json_body
                                                \<lparr>response_location = location,
                                                 response_weather = info,
                                                 response_outfit = outfit rcm,
                                                 response_outfit_images = outfit_images,
                                                 response_color_palette = color_palette rcm,
                                                 response_style_tips = style_tips rcm\<rparr>,
                                              200),
                                             evs @ sent))))))))"

section \<open>Notions used to state the properties\<close>

text \<open>
  The five branches of the temperature rules (lines 46-75) by name, each with the outfit
  its branch assigns.
\<close>

datatype tier = Cold | Cool | Mild | Warm | Hot

fun tier_outfit :: "tier \<Rightarrow> outfit" where
  "tier_outfit Cold =
     \<lparr>top_item = ''Thermal long-sleeve shirt or sweater'', bottom = ''Jeans or warm pants'',
      outerwear = ''Heavy coat or parka'', footwear = ''Boots'',
      accessories = [''Scarf'', ''Gloves'', ''Beanie'']\<rparr>"
| "tier_outfit Cool =
     \<lparr>top_item = ''Long-sleeve shirt or light sweater'', bottom = ''Chinos or jeans'',
      outerwear = ''Light jacket or cardigan'', footwear = ''Sneakers or loafers'',
      accessories = [''Light scarf'']\<rparr>"
| "tier_outfit Mild =
     \<lparr>top_item = ''T-shirt or button-down shirt'', bottom = ''Chinos or casual pants'',
      outerwear = ''Optional light jacket'', footwear = ''Sneakers or casual shoes'',
      accessories = [''Sunglasses'']\<rparr>"
| "tier_outfit Warm =
     \<lparr>top_item = ''Breathable t-shirt or polo'', bottom = ''Shorts or light pants'',
      outerwear = ''None needed'', footwear = ''Sandals or canvas shoes'',
      accessories = [''Sunglasses'', ''Hat'']\<rparr>"
| "tier_outfit Hot =
     \<lparr>top_item = ''Light, breathable tank or t-shirt'', bottom = ''Shorts'',
      outerwear = ''None'', footwear = ''Sandals'',
      accessories = [''Sunglasses'', ''Sun hat'', ''Sunscreen'']\<rparr>"

text \<open>
  The calls of \<^verbatim>\<open>search_unsplash_image\<close> in a list of events, as pairs of key and
  query, and the queries sent to the photo service.
\<close>

fun adapter_calls :: "event list \<Rightarrow> (string \<times> string) list" where
  "adapter_calls [] = []"
| "adapter_calls (Image_adapter_invoked k q # evs) = (k, q) # adapter_calls evs"
| "adapter_calls (_ # evs) = adapter_calls evs"

fun photo_requests :: "event list \<Rightarrow> string list" where
  "photo_requests [] = []"
| "photo_requests (Photo_request q # evs) = q # photo_requests evs"
| "photo_requests (_ # evs) = photo_requests evs"

text \<open>
  Sample inputs: a weather reply with one entry, and a configuration with no photo
  key, whose weather service answers every location with 49.6 degrees and a clear sky.
\<close>

definition weather_of :: "real \<Rightarrow> string \<Rightarrow> weather_data" where
  "weather_of t c =
     \<lparr>main = \<lparr>temp = t, humidity = 40\<rparr>,
      weather = [\<lparr>entry_main = c, entry_description = c\<rparr>],
      wind = \<lparr>speed = 3\<rparr>\<rparr>"

definition offline_env :: env where
  "offline_env =
     \<lparr>OPENWEATHER_API_KEY = Some ''key'', UNSPLASH_ACCESS_KEY = None,
      openweather_get = (\<lambda>loc. Weather_response 200 (weather_of 49.6 ''Clear'')),
      unsplash_get = (\<lambda>q. Photo_raises (OtherException ''unreachable''))\<rparr>"

section \<open>Auxiliary facts\<close>

lemma weather_of_simps:
  "weather (weather_of t c) = [\<lparr>entry_main = c, entry_description = c\<rparr>]"
  "temp (main (weather_of t c)) = t"
  by (simp_all add: weather_of_def)

lemma offline_env_simps:
  "UNSPLASH_ACCESS_KEY offline_env = None"
  "openweather_get offline_env loc = Weather_response 200 (weather_of 49.6 ''Clear'')"
  by (simp_all add: offline_env_def)

lemma recommendation_nonempty:
  assumes "weather wd = w # ws"
  shows "get_outfit_recommendation wd p =
     Inr \<lparr>outfit = mood_rules (dict_get p ''mood'' ''casual'')
                     (condition_rules (entry_main w) (temperature_rules (temp (main wd)))),
          color_palette = select_palette (dict_get p ''color_preference'' ''neutral''),
          style_tips = generate_style_tips (temp (main wd)) (entry_main w)
                         (dict_get p ''mood'' ''casual'')\<rparr>"
  using assms by (simp add: get_outfit_recommendation_def Let_def)

lemma tier_outfit_inj: "tier_outfit a = tier_outfit b \<longleftrightarrow> a = b"
  by (cases a; cases b) simp_all

lemma temperature_rules_tier:
  "temperature_rules t =
     tier_outfit (if t < 50 then Cold else if t < 65 then Cool else if t < 75 then Mild
                  else if t < 85 then Warm else Hot)"
  by (simp add: temperature_rules_def)

lemma select_palette_cases:
  "select_palette c =
     (if c = ''neutral'' then [''Navy'', ''Beige'', ''White'', ''Gray'']
      else if c = ''warm'' then [''Burgundy'', ''Mustard'', ''Rust'', ''Cream'']
      else if c = ''cool'' then [''Navy'', ''Teal'', ''Silver'', ''Ice Blue'']
      else if c = ''vibrant'' then [''Red'', ''Emerald'', ''Royal Blue'', ''Yellow'']
      else [''Navy'', ''Beige'', ''White'', ''Gray''])"
  by (simp add: select_palette_def color_palettes_def dict_get_def)

lemma adapter_calls_append: "adapter_calls (xs @ ys) = adapter_calls xs @ adapter_calls ys"
  by (induction xs rule: adapter_calls.induct) simp_all

lemma photo_requests_append: "photo_requests (xs @ ys) = photo_requests xs @ photo_requests ys"
  by (induction xs rule: photo_requests.induct) simp_all

lemma search_adapter_calls: "adapter_calls (snd (search_unsplash_image e q)) = []"
  by (simp add: search_unsplash_image_def)

lemma images_loop_adapter_calls:
  "adapter_calls (snd (images_loop e qs imgs evs)) =
     adapter_calls evs @ map (\<lambda>(k, q). (k, the q)) (filter (\<lambda>(k, q). truthy q) qs)"
proof (induction e qs imgs evs rule: images_loop.induct)
  case (1 e images evs)
  show ?case by simp
next
  case (2 e key query rest images evs)
  show ?case
  proof (cases "truthy query")
    case True
    obtain found sent where s: "search_unsplash_image e (the query) = (found, sent)"
      by (cases "search_unsplash_image e (the query)")
    have "adapter_calls sent = []"
      using search_adapter_calls [of e "the query"] s by simp
    with 2(1) [OF True s [symmetric]] True s show ?thesis
      by (simp add: adapter_calls_append)
  next
    case False
    with 2(2) show ?thesis by simp
  qed
qed

lemma get_outfit_images_adapter_calls:
  "adapter_calls (snd (get_outfit_images e ou)) =
     map (\<lambda>(k, q). (k, the q)) (filter (\<lambda>(k, q). truthy q) (search_queries ou))"
  by (simp add: get_outfit_images_def images_loop_adapter_calls)

lemma search_unset: "\<not> truthy (UNSPLASH_ACCESS_KEY e) \<Longrightarrow> search_unsplash_image e q = (None, [])"
  by (simp add: search_unsplash_image_def)

lemma images_loop_unset:
  "\<not> truthy (UNSPLASH_ACCESS_KEY e) \<Longrightarrow>
     fst (images_loop e qs imgs evs) = imgs \<and>
     photo_requests (snd (images_loop e qs imgs evs)) = photo_requests evs"
  by (induction e qs imgs evs rule: images_loop.induct)
     (simp_all add: search_unset photo_requests_append)

text \<open>
  The part of the validation that answers 400: a body that is \<^verbatim>\<open>null\<close>, or an object with
  no key \<^verbatim>\<open>location\<close>, gets the error Location is required and no call is made.
\<close>

lemma missing_location:
  assumes "data = JNull \<or> (\<exists>kvs. data = JObj kvs \<and> ''location'' \<notin> fst ` set kvs)"
  shows "outfit_recommendation e \<lparr>is_json = True, payload = Json_text data\<rparr> =
           ((Error_body ''Location is required'', 400), [])"
proof (cases "data = JNull")
  case True
  then show ?thesis by (simp add: outfit_recommendation_def get_json_def)
next
  case False
  with assms obtain kvs where d: "data = JObj kvs" and k: "''location'' \<notin> fst ` set kvs"
    by blast
  from k have "map_of kvs ''location'' = None" by (simp add: map_of_eq_None_iff)
  with d show ?thesis by (simp add: outfit_recommendation_def get_json_def)
qed

lemma handler_success:

  assumes "map_of kvs ''location'' = Some loc"
    and "openweather_get e loc = Weather_response 200 wd"
    and "weather wd = w # ws"
  shows "outfit_recommendation e \<lparr>is_json = True, payload = Json_text (JObj kvs)\<rparr> =
     ((Json_body
         \<lparr>response_location = loc,
          response_weather =
            \<lparr>temperature = py_round (temp (main wd)), condition = entry_main w,
             description = entry_description w, info_humidity = humidity (main wd),
             wind_speed = py_round (speed (wind wd))\<rparr>,
          response_outfit =
            mood_rules (dict_get (map_of kvs) ''mood'' ''casual'')
              (condition_rules (entry_main w) (temperature_rules (temp (main wd)))),
          response_outfit_images =
            fst (get_outfit_images e
              (mood_rules (dict_get (map_of kvs) ''mood'' ''casual'')
                (condition_rules (entry_main w) (temperature_rules (temp (main wd)))))),
          response_color_palette =
            select_palette (dict_get (map_of kvs) ''color_preference'' ''neutral''),
          response_style_tips =
            generate_style_tips (temp (main wd)) (entry_main w)
              (dict_get (map_of kvs) ''mood'' ''casual'')\<rparr>, 200),
      [Weather_request loc, Recommender_invoked] @
      snd (get_outfit_images e
        (mood_rules (dict_get (map_of kvs) ''mood'' ''casual'')
          (condition_rules (entry_main w) (temperature_rules (temp (main wd)))))))"
proof -
  from assms(1) have "kvs \<noteq> []" by auto
  then show ?thesis
    using assms
    by (simp add: outfit_recommendation_def get_json_def
        recommendation_nonempty [OF assms(3)] Let_def dict_get_def split: prod.split)
qed

lemma py_round_below:
  assumes "real_of_int b - 1 / 2 < x" and "x < real_of_int b"
  shows "py_round x = b"
proof -
  have f: "\<lfloor>x\<rfloor> = b - 1" using assms by linarith
  have "x - real_of_int (b - 1) > 1 / 2" using assms by simp
  then show ?thesis by (simp add: py_round_def f Let_def)
qed

lemma below_boundary:
  assumes "real_of_int b - 1 / 2 < t" and "t < real_of_int b"
    and "(b, k) \<in> {(50, Cold), (65, Cool), (75, Mild), (85, Warm)}"
  shows "py_round t = b \<and> temperature_rules t = tier_outfit k \<and>
         temperature_rules (real_of_int (py_round t)) \<noteq> tier_outfit k"
proof -
  have r: "py_round t = b" using assms(1,2) by (rule py_round_below)
  from assms(3) consider "b = 50" "k = Cold" | "b = 65" "k = Cool"
    | "b = 75" "k = Mild" | "b = 85" "k = Warm" by auto
  then show ?thesis
  proof cases
    case 1 with assms(1,2) r show ?thesis
      by (simp add: temperature_rules_tier tier_outfit_inj)
  next
    case 2 with assms(1,2) r show ?thesis
      by (simp add: temperature_rules_tier tier_outfit_inj)
  next
    case 3 with assms(1,2) r show ?thesis
      by (simp add: temperature_rules_tier tier_outfit_inj)
  next
    case 4 with assms(1,2) r show ?thesis
      by (simp add: temperature_rules_tier tier_outfit_inj)
  qed
qed

section \<open>Properties of the service\<close>

text \<open>
  C1 (image lookups per outfit). At 90 degrees under a clear sky with a casual mood the
  recommender gives the outerwear \<^verbatim>\<open>'None'\<close>, and \<^verbatim>\<open>get_outfit_images\<close> calls the image
  adapter five times: for the top, the bottom, the outerwear (with the query
  \<^verbatim>\<open>'None fashion flatlay'\<close>), the footwear and the complete outfit. The guard of the
  outerwear query tests for the empty string and for \<^verbatim>\<open>'None needed'\<close> only, so the
  outerwear lookup is not skipped for \<^verbatim>\<open>'None'\<close>.
\<close>

theorem hot_tier_outerwear_lookup:
  "\<exists>r. get_outfit_recommendation (weather_of 90 ''Clear'') [''mood'' \<mapsto> ''casual''] = Inr r \<and>
     outerwear (outfit r) = ''None'' \<and>
     adapter_calls (snd (get_outfit_images e (outfit r))) =
       [(''top'', ''Light, breathable tank or t-shirt fashion flatlay''),
        (''bottom'', ''Shorts fashion flatlay''),
        (''outerwear'', ''None fashion flatlay''),
        (''footwear'', ''Sandals fashion flatlay''),
        (''outfit_complete'', ''complete outfit flatlay fashion minimal aesthetic'')]"
  by (simp add: get_outfit_recommendation_def weather_of_def Let_def dict_get_def
      temperature_rules_def condition_rules_def mood_rules_def
      get_outfit_images_adapter_calls search_queries_def)

text \<open>
  C2 (temperature tiers). For every real temperature the base outfit is the outfit of
  exactly one of the five tiers: cold below 50, cool from 50 to below 65, mild from 65 to
  below 75, warm from 75 to below 85, hot from 85 on. A boundary value belongs to the
  higher tier.
\<close>

theorem temperature_tier_unique:
  "(temperature_rules t = tier_outfit Cold \<longleftrightarrow> t < 50) \<and>
   (temperature_rules t = tier_outfit Cool \<longleftrightarrow> 50 \<le> t \<and> t < 65) \<and>
   (temperature_rules t = tier_outfit Mild \<longleftrightarrow> 65 \<le> t \<and> t < 75) \<and>
   (temperature_rules t = tier_outfit Warm \<longleftrightarrow> 75 \<le> t \<and> t < 85) \<and>
   (temperature_rules t = tier_outfit Hot \<longleftrightarrow> 85 \<le> t) \<and>
   (\<exists>!k. temperature_rules t = tier_outfit k)"
  unfolding temperature_rules_tier tier_outfit_inj by auto

text \<open>
  C3 (condition override). When the mood is neither professional nor adventurous (the
  two moods that set the footwear), a condition of Rain, Drizzle or Thunderstorm gives the
  waterproof outerwear and footwear, with Umbrella appended to the tier's accessories, and
  Snow gives the insulated winter coat and the winter boots, with Warm hat, Gloves and
  Scarf appended, whatever the temperature. The cozy mood then appends its own accessory
  after these.
\<close>

theorem condition_override:
  assumes "weather wd = w # ws"
    and "mood = dict_get p ''mood'' ''casual''"
    and "mood \<noteq> ''professional''" and "mood \<noteq> ''adventurous''"
  shows "\<exists>r. get_outfit_recommendation wd p = Inr r \<and>
     (entry_main w \<in> {''Rain'', ''Drizzle'', ''Thunderstorm''} \<longrightarrow>
        outerwear (outfit r) = ''Waterproof jacket or raincoat'' \<and>
        footwear (outfit r) = ''Waterproof boots or shoes'' \<and>
        accessories (outfit r) =
          accessories (temperature_rules (temp (main wd))) @ [''Umbrella''] @
          (if mood = ''cozy'' then [''Comfort scarf''] else [])) \<and>
     (entry_main w = ''Snow'' \<longrightarrow>
        outerwear (outfit r) = ''Insulated winter coat'' \<and>
        footwear (outfit r) = ''Winter boots'' \<and>
        accessories (outfit r) =
          accessories (temperature_rules (temp (main wd))) @
          [''Warm hat'', ''Gloves'', ''Scarf''] @
          (if mood = ''cozy'' then [''Comfort scarf''] else []))"
  using assms(2-4) unfolding recommendation_nonempty [OF assms(1)]
  by (auto simp: mood_rules_def condition_rules_def)

theorem condition_override_witness:
  "(\<exists>r. get_outfit_recommendation (weather_of 70 ''Rain'') [''mood'' \<mapsto> ''cozy''] = Inr r \<and>
        outerwear (outfit r) = ''Waterproof jacket or raincoat'' \<and>
        footwear (outfit r) = ''Waterproof boots or shoes'' \<and>
        accessories (outfit r) = [''Sunglasses'', ''Umbrella'', ''Comfort scarf'']) \<and>
   (\<exists>r. get_outfit_recommendation (weather_of 30 ''Snow'') Map.empty = Inr r \<and>
        outerwear (outfit r) = ''Insulated winter coat'' \<and>
        footwear (outfit r) = ''Winter boots'' \<and>
        accessories (outfit r) =
          [''Scarf'', ''Gloves'', ''Beanie'', ''Warm hat'', ''Gloves'', ''Scarf''])"
proof
  show "\<exists>r. get_outfit_recommendation (weather_of 70 ''Rain'') [''mood'' \<mapsto> ''cozy''] = Inr r \<and>
        outerwear (outfit r) = ''Waterproof jacket or raincoat'' \<and>
        footwear (outfit r) = ''Waterproof boots or shoes'' \<and>
        accessories (outfit r) = [''Sunglasses'', ''Umbrella'', ''Comfort scarf'']"
    using condition_override [of "weather_of 70 ''Rain''"
        "\<lparr>entry_main = ''Rain'', entry_description = ''Rain''\<rparr>" "[]" "''cozy''"
        "[''mood'' \<mapsto> ''cozy'']"]
    by (simp add: weather_of_simps dict_get_def temperature_rules_def)
  show "\<exists>r. get_outfit_recommendation (weather_of 30 ''Snow'') Map.empty = Inr r \<and>
        outerwear (outfit r) = ''Insulated winter coat'' \<and>
        footwear (outfit r) = ''Winter boots'' \<and>
        accessories (outfit r) =
          [''Scarf'', ''Gloves'', ''Beanie'', ''Warm hat'', ''Gloves'', ''Scarf'']"
    using condition_override [of "weather_of 30 ''Snow''"
        "\<lparr>entry_main = ''Snow'', entry_description = ''Snow''\<rparr>" "[]" "''casual''"
        "Map.empty"]
    by (simp add: weather_of_simps dict_get_def temperature_rules_def)
qed

text \<open>
  C4 (mood override of the footwear). For every temperature and every condition, the
  professional mood gives the dress footwear and the adventurous mood gives the hiking or
  athletic footwear: the mood rules run after the condition rules.
\<close>

theorem mood_override_footwear:
  assumes "weather wd = w # ws"
  shows "\<exists>r. get_outfit_recommendation wd p = Inr r \<and>
     (dict_get p ''mood'' ''casual'' = ''professional'' \<longrightarrow>
        footwear (outfit r) = ''Dress shoes or heels'') \<and>
     (dict_get p ''mood'' ''casual'' = ''adventurous'' \<longrightarrow>
        footwear (outfit r) = ''Hiking boots or athletic shoes'')"
  unfolding recommendation_nonempty [OF assms]
  by (simp add: mood_rules_def)

theorem mood_override_footwear_witness:
  "(\<exists>r. get_outfit_recommendation (weather_of 30 ''Snow'') [''mood'' \<mapsto> ''professional'']
          = Inr r \<and> footwear (outfit r) = ''Dress shoes or heels'') \<and>
   (\<exists>r. get_outfit_recommendation (weather_of 70 ''Rain'') [''mood'' \<mapsto> ''adventurous'']
          = Inr r \<and> footwear (outfit r) = ''Hiking boots or athletic shoes'')"
proof
  show "\<exists>r. get_outfit_recommendation (weather_of 30 ''Snow'') [''mood'' \<mapsto> ''professional'']
          = Inr r \<and> footwear (outfit r) = ''Dress shoes or heels''"
    using mood_override_footwear [of "weather_of 30 ''Snow''"
        "\<lparr>entry_main = ''Snow'', entry_description = ''Snow''\<rparr>" "[]"
        "[''mood'' \<mapsto> ''professional'']"]
    by (simp add: weather_of_simps dict_get_def)
  show "\<exists>r. get_outfit_recommendation (weather_of 70 ''Rain'') [''mood'' \<mapsto> ''adventurous'']
          = Inr r \<and> footwear (outfit r) = ''Hiking boots or athletic shoes''"
    using mood_override_footwear [of "weather_of 70 ''Rain''"
        "\<lparr>entry_main = ''Rain'', entry_description = ''Rain''\<rparr>" "[]"
        "[''mood'' \<mapsto> ''adventurous'']"]
    by (simp add: weather_of_simps dict_get_def)
qed

text \<open>
  C5 (snow scenario). At 30 degrees with the condition Snow and the mood casual the
  recommender returns the outerwear Insulated winter coat, the footwear Winter boots, and
  the accessories of the cold tier (Scarf, Gloves, Beanie) followed by Warm hat, Gloves,
  Scarf. The other fields of the weather data and the other preferences are arbitrary.
\<close>

theorem snow_scenario:
  "\<exists>r. get_outfit_recommendation
          (wd\<lparr>main := (main wd)\<lparr>temp := 30\<rparr>,
              weather := (w\<lparr>entry_main := ''Snow''\<rparr>) # ws\<rparr>)
          (p(''mood'' \<mapsto> ''casual'')) = Inr r \<and>
       outerwear (outfit r) = ''Insulated winter coat'' \<and>
       footwear (outfit r) = ''Winter boots'' \<and>
       accessories (outfit r) =
         [''Scarf'', ''Gloves'', ''Beanie''] @ [''Warm hat'', ''Gloves'', ''Scarf''] \<and>
       accessories (temperature_rules 30) = [''Scarf'', ''Gloves'', ''Beanie'']"
  by (simp add: get_outfit_recommendation_def Let_def dict_get_def temperature_rules_def
      condition_rules_def mood_rules_def)

text \<open>
  C6 (palette fallback). Every palette returned has four colours, and a colour preference
  outside neutral, warm, cool and vibrant gives the palette returned for neutral, which is
  Navy, Beige, White, Gray.
\<close>

theorem palette_fallback:
  assumes "weather wd = w # ws"
  shows "\<exists>r n. get_outfit_recommendation wd p = Inr r \<and>
     get_outfit_recommendation wd (p(''color_preference'' \<mapsto> ''neutral'')) = Inr n \<and>
     length (color_palette r) = 4 \<and>
     color_palette n = [''Navy'', ''Beige'', ''White'', ''Gray''] \<and>
     (\<forall>c. p ''color_preference'' = Some c \<and>
          c \<notin> {''neutral'', ''warm'', ''cool'', ''vibrant''} \<longrightarrow>
          color_palette r = color_palette n)"
  unfolding recommendation_nonempty [OF assms]
  by (auto simp: select_palette_cases dict_get_def)

theorem palette_fallback_witness:
  "\<exists>r. get_outfit_recommendation (weather_of 70 ''Clear'') [''color_preference'' \<mapsto> ''pastel'']
         = Inr r \<and>
       length (color_palette r) = 4 \<and>
       color_palette r = [''Navy'', ''Beige'', ''White'', ''Gray'']"
  using palette_fallback [of "weather_of 70 ''Clear''"
      "\<lparr>entry_main = ''Clear'', entry_description = ''Clear''\<rparr>" "[]"
      "[''color_preference'' \<mapsto> ''pastel'']"]
  by (auto simp: weather_of_simps)

text \<open>
  C7 (missing location). A request whose body is absent should get 400 with the error
  Location is required, and the handler has the test \<^verbatim>\<open>not data\<close> for it; a body that
  is the JSON text \<^verbatim>\<open>null\<close> does get this answer, with no call made. But for a request with
  no body at all \<^verbatim>\<open>request.get_json()\<close> raises inside the \<^verbatim>\<open>try\<close>, with a JSON
  Content-Type (400 Bad Request) as without one (415 Unsupported Media Type), and the
  last \<^verbatim>\<open>except\<close> clause turns the exception into a 500 whose body is not the error
  Location is required. A body that is an array holding the string \<^verbatim>\<open>location\<close> passes the
  membership test and gets a 500 from the subscript. No call is made in any of these cases.
\<close>

theorem absent_body_internal_error:
  "outfit_recommendation e \<lparr>is_json = True, payload = No_content\<rparr> =
     ((Error_body (''An error occurred: 400 Bad Request: The browser (or proxy) sent '' @
                   ''a request that this server could not understand.''), 500), []) \<and>
   outfit_recommendation e \<lparr>is_json = False, payload = No_content\<rparr> =
     ((Error_body (''An error occurred: 415 Unsupported Media Type: Did not attempt '' @
                   ''to load JSON data because the request Content-Type was not '' @
                   quoted ''application/json'' @ ''.''), 500), []) \<and>
   outfit_recommendation e \<lparr>is_json = True, payload = Json_text (JArr [JStr ''location''])\<rparr> =
     ((Error_body (''An error occurred: list indices must be integers or slices, '' @
                   ''not str''), 500), []) \<and>
   outfit_recommendation e \<lparr>is_json = True, payload = Json_text JNull\<rparr> =
     ((Error_body ''Location is required'', 400), [])"
  by (simp add: outfit_recommendation_def get_json_def)

text \<open>
  C8 (image failures degrade). Let the request name a location for which the weather
  service answers 200 with at least one weather entry. Then the handler answers 200,
  whatever the photo key and the photo service do. With the photo key unset, every image
  lookup returns nothing and sends nothing, no request reaches the photo service, and the
  images of the response are the empty mapping. A lookup also returns nothing when the
  call raises, when the status is not 200 and when the results are empty.
\<close>

theorem image_failures_degrade:
  assumes "map_of kvs ''location'' = Some loc"
    and "openweather_get e loc = Weather_response 200 wd"
    and "weather wd = w # ws"
  shows "(\<exists>resp evs. outfit_recommendation e \<lparr>is_json = True, payload = Json_text (JObj kvs)\<rparr> =
              ((Json_body resp, 200), evs) \<and>
            (\<not> truthy (UNSPLASH_ACCESS_KEY e) \<longrightarrow>
               response_outfit_images resp = [] \<and> photo_requests evs = [])) \<and>
         (\<not> truthy (UNSPLASH_ACCESS_KEY e) \<longrightarrow> search_unsplash_image e q = (None, [])) \<and>
         (unsplash_get e q = Photo_raises x \<longrightarrow> fst (search_unsplash_image e q) = None) \<and>
         (unsplash_get e q = Photo_response status_code results \<and>
            (status_code \<noteq> 200 \<or> results = []) \<longrightarrow>
            fst (search_unsplash_image e q) = None)"
proof -
  have a: "\<exists>resp evs. outfit_recommendation e \<lparr>is_json = True, payload = Json_text (JObj kvs)\<rparr> =
              ((Json_body resp, 200), evs) \<and>
            (\<not> truthy (UNSPLASH_ACCESS_KEY e) \<longrightarrow>
               response_outfit_images resp = [] \<and> photo_requests evs = [])"
    unfolding handler_success [OF assms]
    by (simp add: get_outfit_images_def images_loop_unset)
  have b: "\<not> truthy (UNSPLASH_ACCESS_KEY e) \<longrightarrow> search_unsplash_image e q = (None, [])"
    by (simp add: search_unset)
  have c: "unsplash_get e q = Photo_raises x \<longrightarrow> fst (search_unsplash_image e q) = None"
    by (simp add: search_unsplash_image_def)
  have d: "unsplash_get e q = Photo_response status_code results \<and>
            (status_code \<noteq> 200 \<or> results = []) \<longrightarrow>
            fst (search_unsplash_image e q) = None"
    by (auto simp: search_unsplash_image_def)
  from a b c d show ?thesis by blast
qed

theorem image_failures_degrade_witness:
  "\<exists>resp evs. outfit_recommendation offline_env
         \<lparr>is_json = True, payload = Json_text (JObj [(''location'', ''Chicago'')])\<rparr> =
       ((Json_body resp, 200), evs) \<and>
     response_outfit_images resp = [] \<and> photo_requests evs = [] \<and>
     search_unsplash_image offline_env ''Boots fashion flatlay'' = (None, [])"
  using image_failures_degrade [of "[(''location'', ''Chicago'')]" "''Chicago''" offline_env
      "weather_of 49.6 ''Clear''" "\<lparr>entry_main = ''Clear'', entry_description = ''Clear''\<rparr>" "[]"
      "''Boots fashion flatlay''" "OtherException ''unreachable''" 500 "[]"]
  by (simp add: offline_env_simps weather_of_simps)

text \<open>
  C9 (style preference is inert). Two preference dictionaries that agree on every key
  but \<^verbatim>\<open>style_preference\<close> get the same result from the recommender, for every weather
  data.
\<close>

theorem style_preference_inert:
  assumes "\<forall>k. k \<noteq> ''style_preference'' \<longrightarrow> p k = q k"
  shows "get_outfit_recommendation wd p = get_outfit_recommendation wd q"
proof -
  have "dict_get p ''mood'' ''casual'' = dict_get q ''mood'' ''casual''"
    and "dict_get p ''color_preference'' ''neutral'' = dict_get q ''color_preference'' ''neutral''"
    using assms by (simp_all add: dict_get_def)
  then show ?thesis
    by (cases "weather wd") (simp_all add: get_outfit_recommendation_def Let_def)
qed

theorem style_preference_inert_witness:
  "get_outfit_recommendation (weather_of 70 ''Clear'')
       [''mood'' \<mapsto> ''cozy'', ''style_preference'' \<mapsto> ''formal''] =
   get_outfit_recommendation (weather_of 70 ''Clear'')
       [''mood'' \<mapsto> ''cozy'', ''style_preference'' \<mapsto> ''sporty'']"
  by (rule style_preference_inert) simp

text \<open>
  C10 (rounded display, unrounded rules). On the success path the response shows the
  temperature rounded by Python's \<^verbatim>\<open>round\<close>, while the outfit is computed from the
  unrounded temperature. So for a temperature less than half a degree below a boundary
  (50, 65, 75 or 85) the temperature shown is the boundary, the base outfit is the one of
  the tier below it, and the temperature shown would itself select another tier.
\<close>

theorem rounded_temperature_mismatch:
  assumes "map_of kvs ''location'' = Some loc"
    and "openweather_get e loc = Weather_response 200 wd"
    and "weather wd = w # ws"
  shows "\<exists>resp evs. outfit_recommendation e \<lparr>is_json = True, payload = Json_text (JObj kvs)\<rparr> =
              ((Json_body resp, 200), evs) \<and>
     temperature (response_weather resp) = py_round (temp (main wd)) \<and>
     response_outfit resp =
       mood_rules (dict_get (map_of kvs) ''mood'' ''casual'')
         (condition_rules (entry_main w) (temperature_rules (temp (main wd)))) \<and>
     (\<forall>(b, k) \<in> {(50, Cold), (65, Cool), (75, Mild), (85, Warm)}.
        real_of_int b - 1 / 2 < temp (main wd) \<and> temp (main wd) < real_of_int b \<longrightarrow>
        temperature (response_weather resp) = b \<and>
        temperature_rules (temp (main wd)) = tier_outfit k \<and>
        temperature_rules (real_of_int (temperature (response_weather resp))) \<noteq> tier_outfit k)"
proof -
  let ?t = "temp (main wd)"
  have bb: "\<forall>(b, k) \<in> {(50, Cold), (65, Cool), (75, Mild), (85, Warm)}.
        real_of_int b - 1 / 2 < ?t \<and> ?t < real_of_int b \<longrightarrow>
        py_round ?t = b \<and> temperature_rules ?t = tier_outfit k \<and>
        temperature_rules (real_of_int (py_round ?t)) \<noteq> tier_outfit k"
  proof (intro ballI)
    fix x :: "int \<times> tier"
    assume x: "x \<in> {(50, Cold), (65, Cool), (75, Mild), (85, Warm)}"
    obtain b k where bk: "x = (b, k)" by (cases x)
    show "case x of (b, k) \<Rightarrow>
        real_of_int b - 1 / 2 < ?t \<and> ?t < real_of_int b \<longrightarrow>
        py_round ?t = b \<and> temperature_rules ?t = tier_outfit k \<and>
        temperature_rules (real_of_int (py_round ?t)) \<noteq> tier_outfit k"
      unfolding bk prod.case
    proof (intro impI, elim conjE)
      assume "real_of_int b - 1 / 2 < ?t" and "?t < real_of_int b"
      then show "py_round ?t = b \<and> temperature_rules ?t = tier_outfit k \<and>
        temperature_rules (real_of_int (py_round ?t)) \<noteq> tier_outfit k"
        using x unfolding bk by (rule below_boundary)
    qed
  qed
  show ?thesis
    unfolding handler_success [OF assms]
    by (intro exI conjI, rule refl) (simp_all only: response.simps weather_info.simps, rule bb)
qed

theorem rounded_temperature_mismatch_witness:
  "\<exists>resp evs. outfit_recommendation offline_env
         \<lparr>is_json = True, payload = Json_text (JObj [(''location'', ''Chicago'')])\<rparr> =
       ((Json_body resp, 200), evs) \<and>
     temperature (response_weather resp) = 50 \<and>
     response_outfit resp = tier_outfit Cold \<and>
     temperature_rules 50 = tier_outfit Cool"
  using rounded_temperature_mismatch [of "[(''location'', ''Chicago'')]" "''Chicago''" offline_env
      "weather_of 49.6 ''Clear''" "\<lparr>entry_main = ''Clear'', entry_description = ''Clear''\<rparr>" "[]"]
  apply (simp add: offline_env_simps weather_of_simps dict_get_def mood_rules_def
      condition_rules_def temperature_rules_tier)
  apply blast
  done

end
